theory Spec2Isabelle
  imports Main "HOL-Library.Word"
begin

unbundle bit_operations_syntax

section \<open>Collaborators of \<open>log.Retry\<close>\<close>

text \<open>
  \<open>src/log/retry.go\<close> talks to four collaborators whose declarations live in other
  packages: the \<open>Logger\<close> interface, the clock (\<open>time.Now\<close>, \<open>time.Since\<close>), the
  error classifier (\<open>errors.IsYdb\<close>, \<open>retry.Check\<close>) and the \<open>trace\<close> types. A
  \<open>Logger\<close> is an interface, so all that \<open>Retry\<close> can do with it is call its methods:
  the model records every such call, in order, in the \<open>sink\<close> of an explicit world.
\<close>

datatype level = TRACE | DEBUG | ERROR

text \<open>
  The variadic arguments of \<open>Tracef\<close>/\<open>Debugf\<close>/\<open>Errorf\<close>, one constructor per Go
  type that \<open>Retry\<close> passes: \<open>string\<close>, \<open>bool\<close>, an integer, \<open>time.Duration\<close> (in
  nanoseconds) and \<open>error\<close>.
\<close>

datatype 'e arg = AString string | ABool bool | AInt int | ADuration int | AError 'e

record 'e line =
  lvl :: level
  logger :: "string list"
  format :: string
  args :: "'e arg list"

text \<open>A logger is known by the names it was given with \<open>WithName\<close>, outermost first.\<close>

datatype Logger = Logger (names: "string list")

text \<open>Calls into the packages \<open>errors\<close> and \<open>retry\<close>, recorded in call order.\<close>

datatype 'e call = CallIsYdb 'e | CallCheck 'e

text \<open>
  The world a handler runs in: the reading of the clock at the moment of the call
  (nanoseconds; the caller advances it between calls), the lines logged so far and the
  classifier calls made so far.
\<close>

record 'e world =
  clock :: int
  sink :: "'e line list"
  extern :: "'e call list"

text \<open>
  What \<open>retry.Check\<close> returns: \<open>Retry\<close> only uses its three methods
  \<open>MustRetry(idempotent)\<close>, \<open>StatusCode()\<close> and \<open>MustDeleteSession()\<close>.
\<close>

record retryMode =
  MustRetry :: "bool \<Rightarrow> bool"
  StatusCode :: int
  MustDeleteSession :: bool

text \<open>
  The declarations \<open>Retry\<close> imports and this repository's sources do not show are
  parameters: \<open>errors.IsYdb\<close> and \<open>retry.Check\<close> are the fields of \<open>env\<close>, and the
  bit mask \<open>trace.RetryEvents\<close> (of the integer type \<open>trace.Details\<close>, whose width
  \<open>'w\<close> is left open) is an argument of \<open>Retry\<close>.
\<close>

record 'e env =
  IsYdb :: "'e \<Rightarrow> bool"
  Check :: "'e \<Rightarrow> retryMode"

subsection \<open>The \<open>trace\<close> types\<close>

text \<open>
  The event structs of package \<open>trace\<close>, with the fields that \<open>Retry\<close> reads. An
  \<open>error\<close> that may be nil is an option. The three handler types are the nested func
  types in the signature of \<open>OnRetry\<close>; a handler takes the world it is called in and
  returns the world it leaves.
\<close>

record RetryLoopStartInfo =
  ID :: string
  Idempotent :: bool

record 'e RetryLoopIntermediateInfo =
  Error :: "'e option"

record 'e RetryLoopDoneInfo =
  Attempts :: int
  Error :: "'e option"

type_synonym 'e done_handler = "'e RetryLoopDoneInfo \<Rightarrow> 'e world \<Rightarrow> 'e world"

type_synonym 'e intermediate_handler =
  "'e RetryLoopIntermediateInfo \<Rightarrow> 'e world \<Rightarrow> 'e done_handler \<times> 'e world"

type_synonym 'e start_handler =
  "RetryLoopStartInfo \<Rightarrow> 'e world \<Rightarrow> 'e intermediate_handler \<times> 'e world"

text \<open>\<open>trace.Retry\<close>: the field \<open>OnRetry\<close> is a func value, \<open>nil\<close> when unset.\<close>

record 'e trace_Retry =
  OnRetry :: "'e start_handler option"

subsection \<open>Logger methods and the clock\<close>

definition WithName :: "Logger \<Rightarrow> string \<Rightarrow> Logger" where
  "WithName l n = Logger (names l @ [n])"

definition logf :: "level \<Rightarrow> Logger \<Rightarrow> string \<Rightarrow> 'e arg list \<Rightarrow> 'e world \<Rightarrow> 'e world" where
  "logf lv l fmt as w =
     w\<lparr>sink := sink w @ [\<lparr>lvl = lv, logger = names l, format = fmt, args = as\<rparr>]\<rparr>"

definition Tracef :: "Logger \<Rightarrow> string \<Rightarrow> 'e arg list \<Rightarrow> 'e world \<Rightarrow> 'e world" where
  "Tracef = logf TRACE"

definition Debugf :: "Logger \<Rightarrow> string \<Rightarrow> 'e arg list \<Rightarrow> 'e world \<Rightarrow> 'e world" where
  "Debugf = logf DEBUG"

definition Errorf :: "Logger \<Rightarrow> string \<Rightarrow> 'e arg list \<Rightarrow> 'e world \<Rightarrow> 'e world" where
  "Errorf = logf ERROR"

definition Now :: "'e world \<Rightarrow> int" where
  "Now w = clock w"

text \<open>
  \<open>time.Since(start)\<close> is \<open>time.Now().Sub(start)\<close>; \<open>Sub\<close> yields an \<open>int64\<close> count of
  nanoseconds and saturates at the ends of that range.
\<close>

definition minDuration :: int where
  "minDuration = - (2 ^ 63)"

definition maxDuration :: int where
  "maxDuration = 2 ^ 63 - 1"

definition Sub :: "int \<Rightarrow> int \<Rightarrow> int" where
  "Sub t u =
     (if t - u < minDuration then minDuration
      else if maxDuration < t - u then maxDuration
      else t - u)"

definition Since :: "int \<Rightarrow> 'e world \<Rightarrow> int" where
  "Since start w = Sub (Now w) start"

definition errors_IsYdb :: "'e env \<Rightarrow> 'e \<Rightarrow> 'e world \<Rightarrow> bool \<times> 'e world" where
  "errors_IsYdb env err w = (IsYdb env err, w\<lparr>extern := extern w @ [CallIsYdb err]\<rparr>)"

definition retry_Check :: "'e env \<Rightarrow> 'e \<Rightarrow> 'e world \<Rightarrow> retryMode \<times> 'e world" where
  "retry_Check env err w = (Check env err, w\<lparr>extern := extern w @ [CallCheck err]\<rparr>)"

section \<open>\<open>log.Retry\<close> (\<open>src/log/retry.go\<close>)\<close>

text \<open>
  The three nested func literals of \<open>Retry\<close>, innermost first, with the variables each
  one captures (\<open>l\<close>, \<open>id\<close> (here \<open>ident\<close>), \<open>idempotent\<close>, \<open>start\<close>) as leading arguments.
\<close>

definition onDone ::
  "'e env \<Rightarrow> Logger \<Rightarrow> string \<Rightarrow> bool \<Rightarrow> int \<Rightarrow> 'e done_handler" where
  \<open>onDone env l ident idempotent start info w =
     (case RetryLoopDoneInfo.Error info of
        None \<Rightarrow>
          Tracef l ''retry done {id:"%s",latency:"%v",attempts:%v}''
            [AString ident, ADuration (Since start w), AInt (Attempts info)] w
      | Some err \<Rightarrow>
          (let (ydb, w1) = errors_IsYdb env err w;
               f = (if \<not> ydb then Debugf l else Errorf l);
               (m, w2) = retry_Check env err w1
           in f ''retry failed {id:"%s",latency:"%v",attempts:%v,error:"%s",retryable:%v,code:%d,deleteSession:%v}''
                [AString ident, ADuration (Since start w2), AInt (Attempts info), AError err,
                 ABool (MustRetry m idempotent), AInt (StatusCode m),
                 ABool (MustDeleteSession m)] w2))\<close>

definition onIntermediate ::
  "'e env \<Rightarrow> Logger \<Rightarrow> string \<Rightarrow> bool \<Rightarrow> int \<Rightarrow> 'e intermediate_handler" where
  \<open>onIntermediate env l ident idempotent start info w =
     (case RetryLoopIntermediateInfo.Error info of
        None \<Rightarrow>
          (onDone env l ident idempotent start,
           Tracef l ''retry attempt done {id:"%s",latency:"%v"}''
             [AString ident, ADuration (Since start w)] w)
      | Some err \<Rightarrow>
          (let (ydb, w1) = errors_IsYdb env err w;
               f = (if \<not> ydb then Debugf l else Errorf l);
               (m, w2) = retry_Check env err w1
           in (onDone env l ident idempotent start,
               f ''retry attempt failed {id:"%s",latency:"%v",error:"%s",retryable:%v,code:%d,deleteSession:%v}''
                 [AString ident, ADuration (Since start w2), AError err,
                  ABool (MustRetry m idempotent), AInt (StatusCode m),
                  ABool (MustDeleteSession m)] w2)))\<close>

definition onRetry :: "'e env \<Rightarrow> Logger \<Rightarrow> 'e start_handler" where
  \<open>onRetry env l info w =
     (let ident = ID info;
          idempotent = Idempotent info;
          w1 = Tracef l ''retry start {id:"%s",idempotent:%v}''
                 [AString ident, ABool idempotent] w;
          start = Now w1
      in (onIntermediate env l ident idempotent start, w1))\<close>

definition Retry :: "'w::len word \<Rightarrow> 'e env \<Rightarrow> Logger \<Rightarrow> 'w word \<Rightarrow> 'e trace_Retry" where
  "Retry RetryEvents env l details =
     (if details AND RetryEvents \<noteq> 0
      then \<lparr>OnRetry = Some (onRetry env (WithName l ''retry''))\<rparr>
      else \<lparr>OnRetry = None\<rparr>)"

section \<open>Attempts as the caller times them\<close>

text \<open>
  Modelled from the spec: the \<open>Attempt\<close> record of the data model (section 3), one
  execution of the operation body with its start timestamp, its end and the error if any.
  The orchestrator that produces attempts is not part of \<open>src/\<close>.
\<close>

record 'e Attempt =
  startedAt :: int
  finishedAt :: int
  failure :: "'e option"

text \<open>
  Modelled from the spec: the latency of an attempt (section 3), the duration of that one
  execution of the operation body.
\<close>

definition latency :: "'e Attempt \<Rightarrow> int" where
  "latency a = Sub (finishedAt a) (startedAt a)"

definition attempt_latencies :: "'e Attempt list \<Rightarrow> 'e arg list" where
  "attempt_latencies as = map (\<lambda>a. ADuration (latency a)) as"

text \<open>
  Modelled from the spec: the calling protocol of section 4.4, in which the attempt handler
  is invoked once per attempt. Each call happens when the attempt has ended, so the clock
  reads \<open>finishedAt\<close>; the returned done handler is dropped, as it is only needed at the
  end of the loop.
\<close>

fun report :: "'e intermediate_handler \<Rightarrow> 'e Attempt list \<Rightarrow> 'e world \<Rightarrow> 'e world" where
  "report ih [] w = w"
| "report ih (a # as) w =
     report ih as
       (snd (ih \<lparr>RetryLoopIntermediateInfo.Error = failure a\<rparr> (w\<lparr>clock := finishedAt a\<rparr>)))"

text \<open>
  The latency argument of every logged line: in each format of \<open>Retry\<close> that has a
  \<open>latency\<close> field it is the second argument.
\<close>

definition logged_latencies :: "'e world \<Rightarrow> 'e arg list" where
  "logged_latencies w = map (\<lambda>ln. args ln ! 1) (sink w)"

section \<open>The retry orchestrator\<close>

text \<open>
  The orchestrator (\<open>SessionPool.Retry\<close>, the \<open>Run\<close> of the specification) is called by
  the example program but is not part of \<open>src/\<close>. This section models it from sections
  4.1 to 4.3 and 7 of the specification. What it does is recorded as the list of its
  actions on the session pool, the operation body and the observer.
\<close>

text \<open>
  Modelled from the spec: the three retryability classes of sections 4.2 and 7
  (always retryable, retryable only when idempotent, never retryable); \<open>SessionPool.Retry\<close>
  and its classifier are missing from \<open>src/\<close>.
\<close>

datatype retryability = Always | IfIdempotent | Never

text \<open>Modelled from the spec: the \<open>Classification\<close> of section 3.\<close>

record Classification =
  isBackendError :: bool
  retryable :: retryability
  statusCode :: int
  mustDiscardSession :: bool


text \<open>
  Modelled from the spec: the three observer events of section 4.4. The attempt-outcome
  event carries the 1-based sequence number of its attempt; latencies are left out.
\<close>

datatype 'e event =
  OnLoopStart string bool
  | AttemptOutcome nat "'e option"
  | OnLoopDone "'e option" nat

text \<open>
  Modelled from the spec: the side effects section 4.1 lists for \<open>Run\<close> (session pool
  acquire, release and discard; invoking the operation body; the backoff sleep; observer
  notifications).
\<close>

datatype 'e action = Acquire | Invoke | Release | Discard | Backoff | Emit "'e event"

text \<open>
  Modelled from the spec: what the collaborators do in one iteration (sections 4.1 and 5).
  The pool either fails to hand out a session or hands one out, and then the operation body
  succeeds or fails; \<open>cancelled\<close> is the cancellation state of the context when the policy
  is consulted, \<open>cancelledInBackoff\<close> says whether it is cancelled during the backoff
  sleep that follows.
\<close>

datatype 'e attempt_result = AcquireFailed 'e | Succeeded | Failed 'e

record 'e iteration =
  outcome :: "'e attempt_result"
  cancelled :: bool
  cancelledInBackoff :: bool

text \<open>
  Modelled from the spec: the configuration of section 6 as far as the loop needs it
  (\<open>maxAttempts\<close>), the classifier of section 4.2, whose table the specification leaves
  open, and the error value that stands for a cancellation. The last field is not
  configuration but a point the specification leaves open, kept as a parameter so that
  nothing here depends on it: whether an iteration whose session acquisition fails is
  reported to the observer as an attempt outcome. Section 4.1 says only that such a
  failure is classified and subject to the retry policy; section 3 calls an attempt one
  execution of the operation body.
\<close>

record 'e config =
  maxAttempts :: nat
  Classify :: "'e \<Rightarrow> Classification"
  cancellation :: 'e
  acquireFailureReported :: bool


text \<open>
  Modelled from the spec: one iteration of section 4.1 up to the policy decision. A session
  is acquired and the operation body invoked; the outcome is reported to the observer; the
  session goes back to the pool unless the classification asks to discard it. When the
  acquisition fails, the body is not invoked and there is no session to return; the error
  goes to the classifier and the policy like an error of the body. Whether the observer
  gets an attempt-outcome event for such an iteration is the open point
  \<open>acquireFailureReported\<close>.
\<close>

definition attempt :: "'e config \<Rightarrow> 'e iteration \<Rightarrow> nat \<Rightarrow> 'e option \<times> 'e action list" where
  "attempt cfg it n =
     (case outcome it of
        AcquireFailed e \<Rightarrow>
          (Some e,
           Acquire #
           (if acquireFailureReported cfg then [Emit (AttemptOutcome n (Some e))] else []))
      | Succeeded \<Rightarrow> (None, [Acquire, Invoke, Emit (AttemptOutcome n None), Release])
      | Failed e \<Rightarrow>
          (Some e,
           [Acquire, Invoke, Emit (AttemptOutcome n (Some e)),
            if mustDiscardSession (Classify cfg e) then Discard else Release]))"




definition invocations :: "'e action list \<Rightarrow> nat" where
  "invocations as = length (filter (\<lambda>a. a = Invoke) as)"

definition iterations :: "'e action list \<Rightarrow> nat" where
  "iterations as = length (filter (\<lambda>a. a = Acquire) as)"






section \<open>The example program (\<open>src/unnamed/part_000\<close>)\<close>















section \<open>Sample inputs\<close>

text \<open>
  A small classifier and an empty world, used to instantiate the theorems below at
  concrete inputs. Errors are strings here; \<open>ABORTED\<close> stands for a backend error that
  may be retried by idempotent operations only.
\<close>

definition sample_env :: "string env" where
  "sample_env =
     \<lparr>IsYdb = (\<lambda>e. e = ''ABORTED''),
      Check = (\<lambda>e. if e = ''ABORTED''
                    then \<lparr>MustRetry = (\<lambda>idempotent. idempotent), StatusCode = 400040,
                          MustDeleteSession = False\<rparr>
                    else \<lparr>MustRetry = (\<lambda>idempotent. False), StatusCode = -1,
                          MustDeleteSession = True\<rparr>)\<rparr>"

definition sample_world :: "int \<Rightarrow> string world" where
  "sample_world t = \<lparr>clock = t, sink = [], extern = []\<rparr>"

text \<open>
  Two attempts of one loop that starts at time 0: the first runs from 0 to 10 and fails,
  the second runs from 12 to 25, after a backoff of 2, and succeeds.
\<close>

definition two_attempts :: "string Attempt list" where
  "two_attempts =
     [\<lparr>startedAt = 0, finishedAt = 10, failure = Some ''OVERLOADED''\<rparr>,
      \<lparr>startedAt = 12, finishedAt = 25, failure = None\<rparr>]"






section \<open>What each handler logs\<close>

lemma Since_clock: "Since start w = Sub (clock w) start"
  by (simp add: Since_def Now_def)

lemma onIntermediate_failed:
  assumes "RetryLoopIntermediateInfo.Error info = Some err"
  shows \<open>onIntermediate env l ident idempotent start info w =
     (onDone env l ident idempotent start,
      w\<lparr>sink := sink w @
          [\<lparr>lvl = (if IsYdb env err then ERROR else DEBUG), logger = names l,
            format = ''retry attempt failed {id:"%s",latency:"%v",error:"%s",retryable:%v,code:%d,deleteSession:%v}'',
            args = [AString ident, ADuration (Sub (clock w) start), AError err,
                    ABool (MustRetry (Check env err) idempotent),
                    AInt (StatusCode (Check env err)),
                    ABool (MustDeleteSession (Check env err))]\<rparr>],
        extern := extern w @ [CallIsYdb err, CallCheck err]\<rparr>)\<close>
  using assms
  by (simp add: onIntermediate_def errors_IsYdb_def retry_Check_def Debugf_def Errorf_def
      logf_def Since_clock)

lemma onIntermediate_done:
  assumes "RetryLoopIntermediateInfo.Error info = None"
  shows \<open>onIntermediate env l ident idempotent start info w =
     (onDone env l ident idempotent start,
      w\<lparr>sink := sink w @
          [\<lparr>lvl = TRACE, logger = names l,
            format = ''retry attempt done {id:"%s",latency:"%v"}'',
            args = [AString ident, ADuration (Sub (clock w) start)]\<rparr>]\<rparr>)\<close>
  using assms
  by (simp add: onIntermediate_def Tracef_def logf_def Since_clock)

lemma onDone_failed:
  assumes "RetryLoopDoneInfo.Error info = Some err"
  shows \<open>onDone env l ident idempotent start info w =
      w\<lparr>sink := sink w @
          [\<lparr>lvl = (if IsYdb env err then ERROR else DEBUG), logger = names l,
            format = ''retry failed {id:"%s",latency:"%v",attempts:%v,error:"%s",retryable:%v,code:%d,deleteSession:%v}'',
            args = [AString ident, ADuration (Sub (clock w) start), AInt (Attempts info),
                    AError err,
                    ABool (MustRetry (Check env err) idempotent),
                    AInt (StatusCode (Check env err)),
                    ABool (MustDeleteSession (Check env err))]\<rparr>],
        extern := extern w @ [CallIsYdb err, CallCheck err]\<rparr>\<close>
  using assms
  by (simp add: onDone_def errors_IsYdb_def retry_Check_def Debugf_def Errorf_def
      logf_def Since_clock)

lemma onDone_done:
  assumes "RetryLoopDoneInfo.Error info = None"
  shows \<open>onDone env l ident idempotent start info w =
      w\<lparr>sink := sink w @
          [\<lparr>lvl = TRACE, logger = names l,
            format = ''retry done {id:"%s",latency:"%v",attempts:%v}'',
            args = [AString ident, ADuration (Sub (clock w) start), AInt (Attempts info)]\<rparr>]\<rparr>\<close>
  using assms
  by (simp add: onDone_def Tracef_def logf_def Since_clock)

lemma onRetry_start:
  \<open>onRetry env l info w =
     (onIntermediate env l (ID info) (Idempotent info) (clock w),
      w\<lparr>sink := sink w @
          [\<lparr>lvl = TRACE, logger = names l,
            format = ''retry start {id:"%s",idempotent:%v}'',
            args = [AString (ID info), ABool (Idempotent info)]\<rparr>]\<rparr>)\<close>
  by (simp add: onRetry_def Tracef_def logf_def Now_def Let_def)

lemma Retry_Some:
  assumes "OnRetry (Retry RetryEvents env l details) = Some h"
  shows "h = onRetry env (WithName l ''retry'')" and "details AND RetryEvents \<noteq> 0"
  using assms by (auto simp: Retry_def split: if_splits)

lemma names_WithName: "names (WithName l n) = names l @ [n]"
  by (simp add: WithName_def)

text \<open>
  C1. An attempt-outcome event with a non-nil error makes the handler obtained from
  \<open>log.Retry\<close> log exactly one line: at error level when \<open>errors.IsYdb\<close> holds of the
  error and at debug level otherwise. In both cases the line carries the verdict of
  \<open>retry.Check\<close>: retryable (for the loop's idempotency flag), status code and
  delete-session.
\<close>

theorem attempt_failure_line:
  assumes "OnRetry (Retry RetryEvents env l details) = Some h"
    and "h si w0 = (ih, w1)"
  shows \<open>snd (ih \<lparr>RetryLoopIntermediateInfo.Error = Some err\<rparr> w) =
     w\<lparr>sink := sink w @
          [\<lparr>lvl = (if IsYdb env err then ERROR else DEBUG), logger = names l @ [''retry''],
            format = ''retry attempt failed {id:"%s",latency:"%v",error:"%s",retryable:%v,code:%d,deleteSession:%v}'',
            args = [AString (ID si), ADuration (Sub (clock w) (clock w0)), AError err,
                    ABool (MustRetry (Check env err) (Idempotent si)),
                    AInt (StatusCode (Check env err)),
                    ABool (MustDeleteSession (Check env err))]\<rparr>],
        extern := extern w @ [CallIsYdb err, CallCheck err]\<rparr>\<close>
proof -
  have "h = onRetry env (WithName l ''retry'')"
    using assms(1) by (rule Retry_Some)
  with assms(2) have "ih = onIntermediate env (WithName l ''retry'') (ID si) (Idempotent si) (clock w0)"
    by (simp add: onRetry_start)
  then show ?thesis
    by (simp add: onIntermediate_failed names_WithName)
qed

theorem attempt_failure_line_witness:
  \<open>OnRetry (Retry (4 :: 8 word) sample_env (Logger [''ydb'']) 7)
     = Some (onRetry sample_env (Logger [''ydb'', ''retry''])) \<and>
   snd (fst (onRetry sample_env (Logger [''ydb'', ''retry''])
               \<lparr>ID = ''loop-1'', Idempotent = True\<rparr> (sample_world 100))
          \<lparr>RetryLoopIntermediateInfo.Error = Some ''ABORTED''\<rparr> (sample_world 350)) =
     \<lparr>clock = 350,
      sink = [\<lparr>lvl = ERROR, logger = [''ydb'', ''retry''],
            format = ''retry attempt failed {id:"%s",latency:"%v",error:"%s",retryable:%v,code:%d,deleteSession:%v}'',
            args = [AString ''loop-1'', ADuration 250, AError ''ABORTED'',
                    ABool True, AInt 400040, ABool False]\<rparr>],
      extern = [CallIsYdb ''ABORTED'', CallCheck ''ABORTED'']\<rparr>\<close>
proof -
  have a: "OnRetry (Retry (4 :: 8 word) sample_env (Logger [''ydb'']) 7)
     = Some (onRetry sample_env (Logger [''ydb'', ''retry'']))"
    by (simp add: Retry_def WithName_def)
  have b: "onRetry sample_env (Logger [''ydb'', ''retry''])
               \<lparr>ID = ''loop-1'', Idempotent = True\<rparr> (sample_world 100)
        = (fst (onRetry sample_env (Logger [''ydb'', ''retry''])
               \<lparr>ID = ''loop-1'', Idempotent = True\<rparr> (sample_world 100)),
           snd (onRetry sample_env (Logger [''ydb'', ''retry''])
               \<lparr>ID = ''loop-1'', Idempotent = True\<rparr> (sample_world 100)))"
    by simp
  show ?thesis
    using a attempt_failure_line [OF a b, of "''ABORTED''" "sample_world 350"]
    by (simp add: sample_env_def sample_world_def Sub_def minDuration_def maxDuration_def)
qed

lemma Retry_handlers:
  assumes "OnRetry (Retry RetryEvents env l details) = Some h"
    and "h si w0 = (ih, w1)"
  shows "ih = onIntermediate env (WithName l ''retry'') (ID si) (Idempotent si) (clock w0)"
proof -
  have "h = onRetry env (WithName l ''retry'')"
    using assms(1) by (rule Retry_Some)
  with assms(2) show ?thesis
    by (simp add: onRetry_start)
qed

lemma onIntermediate_returns:
  "fst (onIntermediate env l ident idempotent start info w) = onDone env l ident idempotent start"
  by (cases "RetryLoopIntermediateInfo.Error info")
    (simp_all add: onIntermediate_done onIntermediate_failed)

lemma Retry_done_handler:
  assumes "OnRetry (Retry RetryEvents env l details) = Some h"
    and "h si w0 = (ih, w1)"
    and "ih ai w2 = (dh, w3)"
  shows "dh = onDone env (WithName l ''retry'') (ID si) (Idempotent si) (clock w0)"
proof -
  have "dh = fst (ih ai w2)"
    using assms(3) by simp
  then show ?thesis
    unfolding Retry_handlers [OF assms(1,2)] by (simp add: onIntermediate_returns)
qed

lemma sample_Retry:
  "OnRetry (Retry (4 :: 8 word) sample_env (Logger [''ydb'']) 7)
     = Some (onRetry sample_env (Logger [''ydb'', ''retry'']))"
  by (simp add: Retry_def WithName_def)

lemma sample_start:
  "onRetry sample_env (Logger [''ydb'', ''retry'']) \<lparr>ID = ''loop-1'', Idempotent = b\<rparr>
       (sample_world 100) =
     (fst (onRetry sample_env (Logger [''ydb'', ''retry''])
             \<lparr>ID = ''loop-1'', Idempotent = b\<rparr> (sample_world 100)),
      snd (onRetry sample_env (Logger [''ydb'', ''retry''])
             \<lparr>ID = ''loop-1'', Idempotent = b\<rparr> (sample_world 100)))"
  by simp

lemma sample_attempt:
  "fst (onRetry sample_env (Logger [''ydb'', ''retry''])
             \<lparr>ID = ''loop-1'', Idempotent = b\<rparr> (sample_world 100)) ai (sample_world 350) =
   (fst (fst (onRetry sample_env (Logger [''ydb'', ''retry''])
             \<lparr>ID = ''loop-1'', Idempotent = b\<rparr> (sample_world 100)) ai (sample_world 350)),
    snd (fst (onRetry sample_env (Logger [''ydb'', ''retry''])
             \<lparr>ID = ''loop-1'', Idempotent = b\<rparr> (sample_world 100)) ai (sample_world 350)))"
  by simp

lemmas sample_simps = sample_env_def sample_world_def Sub_def minDuration_def maxDuration_def

text \<open>
  C8. An attempt-outcome event with a nil error makes the handler log exactly one line, at
  trace level, whose only arguments are the loop id and a latency; the classifier is not
  called (no call into \<open>errors\<close> or \<open>retry\<close> is recorded), so no status code, retryable
  or delete-session field is there.
\<close>

theorem attempt_success_line:
  assumes "OnRetry (Retry RetryEvents env l details) = Some h"
    and "h si w0 = (ih, w1)"
  shows \<open>snd (ih \<lparr>RetryLoopIntermediateInfo.Error = None\<rparr> w) =
     w\<lparr>sink := sink w @
          [\<lparr>lvl = TRACE, logger = names l @ [''retry''],
            format = ''retry attempt done {id:"%s",latency:"%v"}'',
            args = [AString (ID si), ADuration (Sub (clock w) (clock w0))]\<rparr>]\<rparr>
     \<and> extern (snd (ih \<lparr>RetryLoopIntermediateInfo.Error = None\<rparr> w)) = extern w\<close>
  by (simp add: Retry_handlers [OF assms] onIntermediate_done names_WithName)

theorem attempt_success_line_witness:
  \<open>snd (fst (onRetry sample_env (Logger [''ydb'', ''retry''])
               \<lparr>ID = ''loop-1'', Idempotent = True\<rparr> (sample_world 100))
          \<lparr>RetryLoopIntermediateInfo.Error = None\<rparr> (sample_world 350)) =
     \<lparr>clock = 350,
      sink = [\<lparr>lvl = TRACE, logger = [''ydb'', ''retry''],
            format = ''retry attempt done {id:"%s",latency:"%v"}'',
            args = [AString ''loop-1'', ADuration 250]\<rparr>],
      extern = []\<rparr>\<close>
  using attempt_success_line [OF sample_Retry sample_start, of True "sample_world 350"]
  by (simp add: sample_simps)

text \<open>
  C9. A loop-done event with a non-nil final error is logged by the same severity rule as
  an attempt failure: error level when \<open>errors.IsYdb\<close> holds of the error, debug level
  otherwise; the line carries the attempts count, the error and the verdict of
  \<open>retry.Check\<close> on the final error (retryable, status code, delete-session).
\<close>

theorem done_failure_line:
  assumes "OnRetry (Retry RetryEvents env l details) = Some h"
    and "h si w0 = (ih, w1)"
    and "ih ai w2 = (dh, w3)"
  shows \<open>dh \<lparr>Attempts = n, Error = Some err\<rparr> w =
     w\<lparr>sink := sink w @
          [\<lparr>lvl = (if IsYdb env err then ERROR else DEBUG), logger = names l @ [''retry''],
            format = ''retry failed {id:"%s",latency:"%v",attempts:%v,error:"%s",retryable:%v,code:%d,deleteSession:%v}'',
            args = [AString (ID si), ADuration (Sub (clock w) (clock w0)), AInt n, AError err,
                    ABool (MustRetry (Check env err) (Idempotent si)),
                    AInt (StatusCode (Check env err)),
                    ABool (MustDeleteSession (Check env err))]\<rparr>],
        extern := extern w @ [CallIsYdb err, CallCheck err]\<rparr>\<close>
  by (simp add: Retry_done_handler [OF assms] onDone_failed names_WithName)

theorem done_failure_line_witness:
  \<open>fst (fst (onRetry sample_env (Logger [''ydb'', ''retry''])
               \<lparr>ID = ''loop-1'', Idempotent = True\<rparr> (sample_world 100))
          \<lparr>RetryLoopIntermediateInfo.Error = Some ''transport''\<rparr> (sample_world 350))
       \<lparr>Attempts = 3, Error = Some ''transport''\<rparr> (sample_world 900) =
     \<lparr>clock = 900,
      sink = [\<lparr>lvl = DEBUG, logger = [''ydb'', ''retry''],
            format = ''retry failed {id:"%s",latency:"%v",attempts:%v,error:"%s",retryable:%v,code:%d,deleteSession:%v}'',
            args = [AString ''loop-1'', ADuration 800, AInt 3, AError ''transport'',
                    ABool False, AInt (- 1), ABool True]\<rparr>],
      extern = [CallIsYdb ''transport'', CallCheck ''transport'']\<rparr>\<close>
  using done_failure_line [OF sample_Retry sample_start sample_attempt,
      of True "\<lparr>RetryLoopIntermediateInfo.Error = Some ''transport''\<rparr>" 3 "''transport''"
        "sample_world 900"]
  by (simp add: sample_simps)

text \<open>
  C4. Every loop-done event makes the done handler log exactly one line, and in both
  cases (final error nil or not) that line starts with the loop id, the time elapsed
  since the loop-start event and the attempts count of the event.
\<close>

theorem done_summary_line:
  assumes "OnRetry (Retry RetryEvents env l details) = Some h"
    and "h si w0 = (ih, w1)"
    and "ih ai w2 = (dh, w3)"
  shows \<open>\<exists>ln. sink (dh di w) = sink w @ [ln] \<and>
           logger ln = names l @ [''retry''] \<and>
           take 3 (args ln) =
             [AString (ID si), ADuration (Sub (clock w) (clock w0)), AInt (Attempts di)] \<and>
           format ln =
             (case RetryLoopDoneInfo.Error di of
                None \<Rightarrow> ''retry done {id:"%s",latency:"%v",attempts:%v}''
              | Some err \<Rightarrow> ''retry failed {id:"%s",latency:"%v",attempts:%v,error:"%s",retryable:%v,code:%d,deleteSession:%v}'')\<close>
proof (cases "RetryLoopDoneInfo.Error di")
  case None
  then show ?thesis
    by (simp add: Retry_done_handler [OF assms] onDone_done names_WithName)
next
  case (Some err)
  then show ?thesis
    by (simp add: Retry_done_handler [OF assms] onDone_failed names_WithName)
qed

theorem done_summary_line_witness:
  \<open>\<exists>ln. sink (fst (fst (onRetry sample_env (Logger [''ydb'', ''retry''])
               \<lparr>ID = ''loop-1'', Idempotent = True\<rparr> (sample_world 100))
          \<lparr>RetryLoopIntermediateInfo.Error = None\<rparr> (sample_world 350))
       \<lparr>Attempts = 2, Error = None\<rparr> (sample_world 900)) = [ln] \<and>
      logger ln = [''ydb'', ''retry''] \<and>
      take 3 (args ln) = [AString ''loop-1'', ADuration 800, AInt 2] \<and>
      format ln = ''retry done {id:"%s",latency:"%v",attempts:%v}''\<close>
  using done_summary_line [OF sample_Retry sample_start sample_attempt,
      of True "\<lparr>RetryLoopIntermediateInfo.Error = None\<rparr>"
        "\<lparr>Attempts = 2, Error = None\<rparr>" "sample_world 900"]
  by (simp add: sample_simps)

text \<open>
  C3. The retryable verdict in both failure lines (attempt failed, retry failed) is
  \<open>retry.Check(err).MustRetry(idempotent)\<close>, where \<open>idempotent\<close> is the flag of the
  loop-start event that produced the handlers. Two loops that differ only in that flag
  therefore log different verdicts for an error whose \<open>MustRetry\<close> depends on it.
\<close>

theorem retryable_uses_loop_idempotency:
  assumes "OnRetry (Retry RetryEvents env l details) = Some h"
    and "h si w0 = (ih, w1)"
    and "ih ai w2 = (dh, w3)"
  shows "args (last (sink (snd (ih \<lparr>RetryLoopIntermediateInfo.Error = Some err\<rparr> w)))) ! 3
           = ABool (MustRetry (Check env err) (Idempotent si)) \<and>
         args (last (sink (dh \<lparr>Attempts = n, Error = Some err\<rparr> w'))) ! 4
           = ABool (MustRetry (Check env err) (Idempotent si))"
  by (simp add: Retry_handlers [OF assms(1,2)] Retry_done_handler [OF assms]
      onIntermediate_failed onDone_failed)

theorem retryable_uses_loop_idempotency_witness:
  "args (last (sink (snd (fst (onRetry sample_env (Logger [''ydb'', ''retry''])
               \<lparr>ID = ''loop-1'', Idempotent = True\<rparr> (sample_world 100))
          \<lparr>RetryLoopIntermediateInfo.Error = Some ''ABORTED''\<rparr> (sample_world 350))))) ! 3
     = ABool True \<and>
   args (last (sink (snd (fst (onRetry sample_env (Logger [''ydb'', ''retry''])
               \<lparr>ID = ''loop-1'', Idempotent = False\<rparr> (sample_world 100))
          \<lparr>RetryLoopIntermediateInfo.Error = Some ''ABORTED''\<rparr> (sample_world 350))))) ! 3
     = ABool False \<and>
   args (last (sink (fst (fst (onRetry sample_env (Logger [''ydb'', ''retry''])
               \<lparr>ID = ''loop-1'', Idempotent = True\<rparr> (sample_world 100))
          \<lparr>RetryLoopIntermediateInfo.Error = Some ''ABORTED''\<rparr> (sample_world 350))
       \<lparr>Attempts = 1, Error = Some ''ABORTED''\<rparr> (sample_world 900)))) ! 4
     = ABool True \<and>
   args (last (sink (fst (fst (onRetry sample_env (Logger [''ydb'', ''retry''])
               \<lparr>ID = ''loop-1'', Idempotent = False\<rparr> (sample_world 100))
          \<lparr>RetryLoopIntermediateInfo.Error = Some ''ABORTED''\<rparr> (sample_world 350))
       \<lparr>Attempts = 1, Error = Some ''ABORTED''\<rparr> (sample_world 900)))) ! 4
     = ABool False"
  using
    retryable_uses_loop_idempotency [OF sample_Retry sample_start [of True]
        sample_attempt [of True "\<lparr>RetryLoopIntermediateInfo.Error = Some ''ABORTED''\<rparr>"],
      where err = "''ABORTED''" and w = "sample_world 350" and n = 1
        and w' = "sample_world 900"]
    retryable_uses_loop_idempotency [OF sample_Retry sample_start [of False]
        sample_attempt [of False "\<lparr>RetryLoopIntermediateInfo.Error = Some ''ABORTED''\<rparr>"],
      where err = "''ABORTED''" and w = "sample_world 350" and n = 1
        and w' = "sample_world 900"]
  by (simp add: sample_env_def)

text \<open>
  C5. The observer of \<open>log.Retry\<close> is a chain of closures: the loop-start handler returns
  the attempt handler, closed over the loop id and idempotency flag of the start event and
  over the clock reading taken in the start handler; every call of that attempt handler,
  whatever its event and whenever it is made, returns the loop-done handler closed over
  the same three values.
\<close>

theorem handler_chain:
  assumes "OnRetry (Retry RetryEvents env l details) = Some h"
  shows "fst (h si w0) =
           onIntermediate env (WithName l ''retry'') (ID si) (Idempotent si)
             (Now (snd (h si w0))) \<and>
         (\<forall>ai w. fst (fst (h si w0) ai w) =
           onDone env (WithName l ''retry'') (ID si) (Idempotent si)
             (Now (snd (h si w0))))"
proof -
  have h: "h = onRetry env (WithName l ''retry'')"
    using assms by (rule Retry_Some)
  have "Now (snd (h si w0)) = clock w0"
    by (simp add: h onRetry_start Now_def)
  then show ?thesis
    by (simp add: h onRetry_start onIntermediate_returns)
qed

theorem handler_chain_witness:
  "fst (onRetry sample_env (Logger [''ydb'', ''retry''])
          \<lparr>ID = ''loop-1'', Idempotent = True\<rparr> (sample_world 100)) =
     onIntermediate sample_env (Logger [''ydb'', ''retry'']) ''loop-1'' True 100 \<and>
   (\<forall>ai w. fst (fst (onRetry sample_env (Logger [''ydb'', ''retry''])
          \<lparr>ID = ''loop-1'', Idempotent = True\<rparr> (sample_world 100)) ai w) =
     onDone sample_env (Logger [''ydb'', ''retry'']) ''loop-1'' True 100)"
proof -
  have "Now (snd (onRetry sample_env (Logger [''ydb'', ''retry''])
          \<lparr>ID = ''loop-1'', Idempotent = True\<rparr> (sample_world 100))) = 100"
    by (simp add: onRetry_start Now_def sample_world_def)
  then show ?thesis
    using handler_chain [OF sample_Retry,
        of "\<lparr>ID = ''loop-1'', Idempotent = True\<rparr>" "sample_world 100"]
    by (auto simp: WithName_def)
qed

text \<open>
  C6. \<open>log.Retry\<close> is gated by the details mask. When \<open>details & trace.RetryEvents\<close> is
  zero the returned \<open>trace.Retry\<close> has no \<open>OnRetry\<close> callback, so there is nothing that
  could log a retry line. Otherwise \<open>OnRetry\<close> is set, to handlers that log through the
  logger renamed with \<open>WithName("retry")\<close>: the loop-start line already carries the name
  of \<open>l\<close> extended by \<open>retry\<close>.
\<close>

theorem details_gate:
  \<open>(details AND RetryEvents = 0 \<longrightarrow> OnRetry (Retry RetryEvents env l details) = None) \<and>
   (details AND RetryEvents \<noteq> 0 \<longrightarrow>
      OnRetry (Retry RetryEvents env l details) = Some (onRetry env (WithName l ''retry'')) \<and>
      sink (snd (onRetry env (WithName l ''retry'') si w)) =
        sink w @ [\<lparr>lvl = TRACE, logger = names l @ [''retry''],
                   format = ''retry start {id:"%s",idempotent:%v}'',
                   args = [AString (ID si), ABool (Idempotent si)]\<rparr>])\<close>
  by (simp add: Retry_def onRetry_start names_WithName)

theorem details_gate_witness:
  \<open>OnRetry (Retry (4 :: 8 word) sample_env (Logger [''ydb'']) 3) = None \<and>
   OnRetry (Retry (4 :: 8 word) sample_env (Logger [''ydb'']) 7) =
     Some (onRetry sample_env (WithName (Logger [''ydb'']) ''retry'')) \<and>
   sink (snd (onRetry sample_env (WithName (Logger [''ydb'']) ''retry'')
                \<lparr>ID = ''loop-1'', Idempotent = False\<rparr> (sample_world 100))) =
     [\<lparr>lvl = TRACE, logger = [''ydb'', ''retry''],
       format = ''retry start {id:"%s",idempotent:%v}'',
       args = [AString ''loop-1'', ABool False]\<rparr>]\<close>
proof -
  have z: "(3 :: 8 word) AND 4 = 0" and nz: "(7 :: 8 word) AND 4 \<noteq> 0"
    by simp_all
  show ?thesis
    using details_gate [of 3 "4 :: 8 word" sample_env "Logger [''ydb'']"]
      details_gate [of 7 "4 :: 8 word" sample_env "Logger [''ydb'']"
        "\<lparr>ID = ''loop-1'', Idempotent = False\<rparr>" "sample_world 100"] z nz
    by (simp add: sample_world_def)
qed

section \<open>Latency of the attempt lines\<close>

lemma report_onIntermediate:
  "\<exists>ls. sink (report (onIntermediate env l ident idempotent start) as w) = sink w @ ls \<and>
        length ls = length as \<and>
        map (\<lambda>ln. args ln ! 1) ls = map (\<lambda>a. ADuration (Sub (finishedAt a) start)) as"
proof (induction as arbitrary: w)
  case Nil
  show ?case by simp
next
  case (Cons a as)
  define w' where
    "w' = snd (onIntermediate env l ident idempotent start
                 \<lparr>RetryLoopIntermediateInfo.Error = failure a\<rparr> (w\<lparr>clock := finishedAt a\<rparr>))"
  have "\<exists>ln. sink w' = sink w @ [ln] \<and> args ln ! 1 = ADuration (Sub (finishedAt a) start)"
    unfolding w'_def
    by (cases "failure a") (simp_all add: onIntermediate_done onIntermediate_failed)
  then obtain ln where ln: "sink w' = sink w @ [ln]"
    "args ln ! 1 = ADuration (Sub (finishedAt a) start)"
    by blast
  from Cons.IH [of w'] obtain ls where ls:
    "sink (report (onIntermediate env l ident idempotent start) as w') = sink w' @ ls"
    "length ls = length as"
    "map (\<lambda>ln. args ln ! 1) ls = map (\<lambda>a. ADuration (Sub (finishedAt a) start)) as"
    by blast
  have "sink (report (onIntermediate env l ident idempotent start) (a # as) w) =
          sink w @ (ln # ls)"
    using ln(1) ls(1) by (simp add: w'_def)
  moreover have "length (ln # ls) = length (a # as)"
    using ls(2) by simp
  moreover have "map (\<lambda>ln. args ln ! 1) (ln # ls) =
      map (\<lambda>a. ADuration (Sub (finishedAt a) start)) (a # as)"
    using ln(2) ls(3) by simp
  ultimately show ?case by blast
qed

lemma sample_start0:
  "onRetry sample_env (Logger [''ydb'', ''retry'']) \<lparr>ID = ''loop-1'', Idempotent = True\<rparr>
       (sample_world 0) =
     (fst (onRetry sample_env (Logger [''ydb'', ''retry''])
             \<lparr>ID = ''loop-1'', Idempotent = True\<rparr> (sample_world 0)),
      snd (onRetry sample_env (Logger [''ydb'', ''retry''])
             \<lparr>ID = ''loop-1'', Idempotent = True\<rparr> (sample_world 0)))"
  by simp

text \<open>
  C2 (as amended). The latency in each attempt line is \<open>time.Since(start)\<close> with the one
  \<open>start\<close> read in the loop-start handler: the time from the loop-start event to the end
  of that attempt, earlier attempts and backoffs included.
\<close>

theorem attempt_latency_since_loop_start:
  assumes "OnRetry (Retry RetryEvents env l details) = Some h"
    and "h si w0 = (ih, w1)"
  shows "\<exists>ls. sink (report ih as w) = sink w @ ls \<and>
           length ls = length as \<and>
           map (\<lambda>ln. args ln ! 1) ls =
             map (\<lambda>a. ADuration (Sub (finishedAt a) (clock w0))) as"
  unfolding Retry_handlers [OF assms] by (rule report_onIntermediate)

theorem attempt_latency_since_loop_start_witness:
  "logged_latencies
     (report (fst (onRetry sample_env (Logger [''ydb'', ''retry''])
                     \<lparr>ID = ''loop-1'', Idempotent = True\<rparr> (sample_world 0)))
        two_attempts (sample_world 0)) =
   [ADuration 10, ADuration 25]"
  using attempt_latency_since_loop_start [OF sample_Retry sample_start0,
      of two_attempts "sample_world 0"]
  by (auto simp: logged_latencies_def two_attempts_def sample_simps)

text \<open>
  C2 as stated fails: in a loop started at time 0 whose second attempt runs from 12 to 25,
  the second attempt line shows 25, not the 13 that the attempt took.
\<close>

theorem attempt_latency_counterexample:
  "logged_latencies
     (report (fst (onRetry sample_env (Logger [''ydb'', ''retry''])
                     \<lparr>ID = ''loop-1'', Idempotent = True\<rparr> (sample_world 0)))
        two_attempts (sample_world 0)) = [ADuration 10, ADuration 25] \<and>
   attempt_latencies two_attempts = [ADuration 10, ADuration 13] \<and>
   logged_latencies
     (report (fst (onRetry sample_env (Logger [''ydb'', ''retry''])
                     \<lparr>ID = ''loop-1'', Idempotent = True\<rparr> (sample_world 0)))
        two_attempts (sample_world 0)) \<noteq> attempt_latencies two_attempts"
  by (simp add: logged_latencies_def attempt_latencies_def latency_def two_attempts_def
      onRetry_start onIntermediate_done onIntermediate_failed sample_simps)

section \<open>Events of a run\<close>



lemma invocations_Nil: "invocations [] = 0"
  by (simp add: invocations_def)



lemma iterations_Nil: "iterations [] = 0"
  by (simp add: iterations_def)















section \<open>The call sites of the example program\<close>












end
